theory Spec2Isabelle
  imports Main
begin

section \<open>Python values, exceptions and the framework objects the views touch\<close>

text \<open>
  The views of \<^verbatim>\<open>voting/views.py\<close> read URL keyword arguments, call the object-relational
  mapper and the vote manager, and hand a context dictionary to a renderer. The values that
  flow through them are modelled by one datatype of Python values. An exception is a value
  of type \<open>error\<close>; \<open>AttributeError fmt args\<close> stands for
  \<^verbatim>\<open>AttributeError(fmt % args)\<close>, the message kept as format string and arguments.
\<close>

record model_class =
  meta_app_label :: string
  meta_object_name :: string
  meta_pk_name :: string

text \<open>
  A row of the vote table as section 3 of the specification describes it (the timestamp
  \<^verbatim>\<open>cast_at\<close> is left out: no claim reads it).
\<close>

record vote =
  votable_type :: string
  votable_id :: int
  voter_id :: nat
  direction :: int

datatype pyval =
    PyNone
  | PyBool bool
  | PyInt int
  | PyStr string
  | PyDict "(string \<times> pyval) list"
  | PyModel model_class
  | PyVote vote
  | PyOpaque string
  | PyExc error
and error =
    AttributeError string "pyval list"
  | NameError string
  | TypeError string
  | KeyError pyval
  | ObjectDoesNotExist
  | MultipleObjectsReturned
  | OtherError string

text \<open>Python truth value testing, as \<^verbatim>\<open>if x:\<close> and \<^verbatim>\<open>not x\<close> apply it.\<close>

fun truthy :: "pyval \<Rightarrow> bool" where
  "truthy PyNone = False"
| "truthy (PyBool b) = b"
| "truthy (PyInt i) = (i \<noteq> 0)"
| "truthy (PyStr s) = (s \<noteq> [])"
| "truthy (PyDict kvs) = (kvs \<noteq> [])"
| "truthy (PyModel m) = True"
| "truthy (PyVote v) = True"
| "truthy (PyOpaque n) = True"
| "truthy (PyExc e) = True"

datatype url_attr = UrlMethod pyval | UrlProperty pyval

text \<open>
  A model instance returned by the mapper: its type tag and primary key, and the attribute
  \<^verbatim>\<open>get_absolute_url\<close> when the instance has one (a method or a plain attribute).
\<close>

record entity =
  entity_type :: string
  entity_pk :: int
  get_absolute_url :: "url_attr option"

record request =
  user :: nat
  GET :: "string \<rightharpoonup> pyval"

text \<open>
  The view instance: \<^verbatim>\<open>self.kwargs\<close>, \<^verbatim>\<open>self.request\<close> and the class attributes that
  a subclass or \<^verbatim>\<open>as_view\<close> may override.
\<close>

record view =
  kwargs :: "string \<rightharpoonup> pyval"
  request :: request
  slug_field :: string
  post_vote_redirect :: pyval

definition pk_url_kwarg :: string where "pk_url_kwarg = ''object_id''"
definition slug_url_kwarg :: string where "slug_url_kwarg = ''slug''"
definition app_label_url_kwarg :: string where "app_label_url_kwarg = ''app_label''"
definition model_name_url_kwarg :: string where "model_name_url_kwarg = ''model_name''"
definition directon_url_kwarg :: string where "directon_url_kwarg = ''direction''"

text \<open>\<^verbatim>\<open>self.kwargs.get(key, None)\<close>.\<close>

definition kwargs_get :: "view \<Rightarrow> string \<Rightarrow> pyval" where
  "kwargs_get self key = (case kwargs self key of None \<Rightarrow> PyNone | Some v \<Rightarrow> v)"

text \<open>
  The vote manager \<^verbatim>\<open>Vote.objects\<close> lives in \<^verbatim>\<open>voting/models.py\<close>, which is not among
  the sources; the views only call its three operations. They are parameters of the model:
  each takes the store, and returns a value or an exception together with the store it leaves.
\<close>

record 's vote_manager =
  objects_record_vote :: "entity \<Rightarrow> nat \<Rightarrow> int \<Rightarrow> 's \<Rightarrow> (error + pyval) \<times> 's"
  objects_toggle :: "entity \<Rightarrow> nat \<Rightarrow> 's \<Rightarrow> (error + pyval) \<times> 's"
  objects_get_score :: "entity \<Rightarrow> 's \<Rightarrow> (error + pyval) \<times> 's"

text \<open>
  What a handler returns: the response of one of the two renderers, built from the context
  it was given, or a redirect.
\<close>

datatype response =
    TemplateResponse "string \<rightharpoonup> pyval"
  | JsonResponse "string \<rightharpoonup> pyval"
  | HttpResponseRedirect pyval

text \<open>
  The host framework: \<^verbatim>\<open>django.db.models.get_model\<close> (a model class, or None),
  \<^verbatim>\<open>model._default_manager.get(**lookup_kwargs)\<close>, the vote manager, and the two
  renderers that the view inherits: \<^verbatim>\<open>render_to_response\<close> of Django's
  TemplateResponseMixin and \<^verbatim>\<open>render_json_response\<close> of the braces JSONResponseMixin.
  Neither renderer is part of this repository; each is a parameter that is given the
  context and returns a response or raises.
\<close>

record 's framework =
  models_get_model :: "pyval \<Rightarrow> pyval \<Rightarrow> pyval"
  default_manager_get :: "model_class \<Rightarrow> (string \<times> pyval) list \<Rightarrow> error + entity"
  vote_objects :: "'s vote_manager"
  render_to_response :: "(string \<rightharpoonup> pyval) \<Rightarrow> error + response"
  render_json_response :: "(string \<rightharpoonup> pyval) \<Rightarrow> error + response"

section \<open>Names bound at module level\<close>

text \<open>
  A name that a function body reads without assigning it is looked up among the module's
  globals (then the builtins, none of which is called \<^verbatim>\<open>model_label\<close>,
  \<^verbatim>\<open>post_vote_redirect\<close> or \<^verbatim>\<open>obj\<close>). These are the names that the imports, the
  assignment and the two class statements of \<^verbatim>\<open>views.py\<close> bind.
\<close>

definition views_globals :: "string list" where
  "views_globals =
    [''ObjectDoesNotExist'', ''get_model'', ''Http404'', ''HttpResponse'',
     ''HttpResponseBadRequest'', ''HttpResponseRedirect'', ''redirect_to_login'',
     ''loader'', ''RequestContext'', ''simplejson'', ''View'', ''ContextMixin'',
     ''TemplateResponseMixin'', ''JSONResponseMixin'', ''AjaxResponseMixin'', ''Vote'',
     ''VOTE_DIRECTIONS'', ''VoteObjectMixin'', ''VoteView'']"

definition load_global :: "string \<Rightarrow> error + pyval" where
  "load_global name =
    (if name \<in> set views_globals then Inr (PyOpaque name) else Inl (NameError name))"

section \<open>VoteObjectMixin\<close>

text \<open>
  \<^verbatim>\<open>get_model\<close>, lines 28 to 54. The test of line 45 reads \<^verbatim>\<open>app_label\<close> first and,
  only when that is truthy, the name \<^verbatim>\<open>model_label\<close>.
\<close>

definition get_model :: "'s framework \<Rightarrow> view \<Rightarrow> error + pyval" where
  "get_model fw self =
    (let model = kwargs_get self ''model'' in
     if truthy model then Inr model
     else
       let app_label = kwargs_get self app_label_url_kwarg;
           model_name = kwargs_get self model_name_url_kwarg
       in case (if \<not> truthy app_label then Inr True
                else case load_global ''model_label'' of
                       Inl e \<Rightarrow> Inl e
                     | Inr model_label \<Rightarrow> Inr (\<not> truthy model_label)) of
            Inl e \<Rightarrow> Inl e
          | Inr True \<Rightarrow>
              Inl (AttributeError
                ''Generic vote view must be called with app_label and model_label '' [])
          | Inr False \<Rightarrow>
              (let model = models_get_model fw app_label model_name
               in if \<not> truthy model
                  then Inl (AttributeError ''Model %s.%s does not exist''
                              [app_label, model_name])
                  else Inr model))"

text \<open>\<^verbatim>\<open>get_slug_field\<close>, lines 113 to 117.\<close>

definition get_slug_field :: "view \<Rightarrow> string" where
  "get_slug_field self = slug_field self"

text \<open>
  Attribute access on the value that \<^verbatim>\<open>get_model\<close> returned: only a model class has
  \<^verbatim>\<open>_meta\<close> and \<^verbatim>\<open>_default_manager\<close>; on any other value Python raises AttributeError
  (the interpreter's own wording of that message is not reproduced).
\<close>

fun model_attr :: "string \<Rightarrow> pyval \<Rightarrow> error + model_class" where
  "model_attr name (PyModel m) = Inr m"
| "model_attr name v = Inl (AttributeError ''%r has no attribute %r'' [v, PyStr name])"

text \<open>
  Lines 64 to 77 of \<^verbatim>\<open>get_object\<close>: the dictionary \<^verbatim>\<open>lookup_kwargs\<close>, which receives
  one entry in the first branch whose test holds.
\<close>

definition get_object_lookup :: "view \<Rightarrow> pyval \<Rightarrow> error + (string \<times> pyval) list" where
  "get_object_lookup self model =
    (let slug = kwargs_get self slug_url_kwarg;
         slug_field = get_slug_field self;
         object_id = kwargs_get self pk_url_kwarg
     in if truthy object_id then
          (case model_attr ''_meta'' model of
             Inl e \<Rightarrow> Inl e
           | Inr m \<Rightarrow> Inr [(meta_pk_name m @ ''__exact'', object_id)])
        else if truthy slug \<and> slug_field \<noteq> [] then
          Inr [(slug_field @ ''__exact'', slug)]
        else
          Inl (AttributeError
            ''Generic vote view must be called with either object_id or slug and slug_field.''
            []))"

text \<open>
  \<^verbatim>\<open>get_object\<close>, lines 56 to 83. Only \<^verbatim>\<open>ObjectDoesNotExist\<close> is caught around the
  mapper's \<^verbatim>\<open>get\<close>; every other exception leaves the function as it is.
\<close>

definition get_object :: "'s framework \<Rightarrow> view \<Rightarrow> error + entity" where
  "get_object fw self =
    (case get_model fw self of
       Inl e \<Rightarrow> Inl e
     | Inr model \<Rightarrow>
        (case get_object_lookup self model of
           Inl e \<Rightarrow> Inl e
         | Inr lookup_kwargs \<Rightarrow>
            (case model_attr ''_default_manager'' model of
               Inl e \<Rightarrow> Inl e
             | Inr m \<Rightarrow>
                (case default_manager_get fw m lookup_kwargs of
                   Inl ObjectDoesNotExist \<Rightarrow>
                     Inl (AttributeError ''No %s found for %s.''
                            [PyStr (meta_app_label m), PyDict lookup_kwargs])
                 | Inl e \<Rightarrow> Inl e
                 | Inr obj \<Rightarrow> Inr obj))))"

text \<open>
  Line 13, and the subscription \<^verbatim>\<open>dict(VOTE_DIRECTIONS)[direction]\<close> of line 97: a
  string is looked up among the keys; a dictionary is unhashable (TypeError); any other
  value is hashable and is not a key.
\<close>

definition VOTE_DIRECTIONS :: "(string \<times> int) list" where
  "VOTE_DIRECTIONS = [(''up'', 1), (''down'', -1), (''clear'', 0)]"

fun dict_getitem :: "(string \<times> int) list \<Rightarrow> pyval \<Rightarrow> error + int" where
  "dict_getitem d (PyStr k) =
     (case map_of d k of None \<Rightarrow> Inl (KeyError (PyStr k)) | Some v \<Rightarrow> Inr v)"
| "dict_getitem d (PyDict kvs) = Inl (TypeError ''unhashable type'')"
| "dict_getitem d v = Inl (KeyError v)"

text \<open>
  The format string of line 99; it puts the token between single quotes (character 0x27).
\<close>

definition not_a_valid_vote_type :: string where
  "not_a_valid_vote_type = [CHR 0x27] @ ''%s'' @ [CHR 0x27] @ '' is not a valid vote type.''"

text \<open>\<^verbatim>\<open>vote_on_object\<close>, lines 85 to 105.\<close>

definition vote_on_object ::
  "'s framework \<Rightarrow> view \<Rightarrow> entity \<Rightarrow> 's \<Rightarrow> (error + pyval) \<times> 's" where
  "vote_on_object fw self obj s =
    (let direction = kwargs_get self directon_url_kwarg;
         voter = user (request self)
     in if truthy direction then
          (case dict_getitem VOTE_DIRECTIONS direction of
             Inl (KeyError k) \<Rightarrow>
               (Inl (AttributeError not_a_valid_vote_type [direction]), s)
           | Inl e \<Rightarrow> (Inl e, s)
           | Inr vote \<Rightarrow> objects_record_vote (vote_objects fw) obj voter vote s)
        else objects_toggle (vote_objects fw) obj voter s)"

text \<open>\<^verbatim>\<open>get_score\<close>, lines 107 to 111.\<close>

definition get_score :: "'s framework \<Rightarrow> entity \<Rightarrow> 's \<Rightarrow> (error + pyval) \<times> 's" where
  "get_score fw obj s = objects_get_score (vote_objects fw) obj s"

text \<open>
  \<^verbatim>\<open>get_context_data\<close>, lines 130 to 139: an empty dictionary updated with the keyword
  arguments of the call.
\<close>

definition get_context_data :: "(string \<rightharpoonup> pyval) \<Rightarrow> (string \<rightharpoonup> pyval)" where
  "get_context_data kw = Map.empty ++ kw"

section \<open>VoteView\<close>

text \<open>
  \<^verbatim>\<open>get\<close>, lines 159 to 163. The call of line 162 passes \<^verbatim>\<open>score\<close> by name next to
  the URL keyword arguments; Python refuses a call that receives one keyword twice.
\<close>

definition get :: "'s framework \<Rightarrow> view \<Rightarrow> 's \<Rightarrow> (error + response) \<times> 's" where
  "get fw self s =
    (case get_object fw self of
       Inl e \<Rightarrow> (Inl e, s)
     | Inr object \<Rightarrow>
        (case get_score fw object s of
           (Inl e, s') \<Rightarrow> (Inl e, s')
         | (Inr score, s') \<Rightarrow>
            (if ''score'' \<in> dom (kwargs self)
             then (Inl (TypeError ''got multiple values for keyword argument score''), s')
             else (render_to_response fw
                     (get_context_data ((kwargs self)(''score'' \<mapsto> score))), s'))))"

text \<open>
  The handler \<^verbatim>\<open>except AttributeError, err\<close> of lines 170 and 205: an AttributeError
  raised in the body is replaced by the failure context; any other exception passes.
\<close>

fun except_AttributeError ::
  "(error + (string \<rightharpoonup> pyval)) \<Rightarrow> (error + (string \<rightharpoonup> pyval))" where
  "except_AttributeError (Inl (AttributeError fmt args)) =
     Inr [''success'' \<mapsto> PyBool False, ''error'' \<mapsto> PyExc (AttributeError fmt args)]"
| "except_AttributeError (Inl e) = Inl e"
| "except_AttributeError (Inr context) = Inr context"

text \<open>\<^verbatim>\<open>get_ajax\<close>, lines 165 to 175; the first definition is the body of its \<^verbatim>\<open>try\<close>.\<close>

definition get_ajax_try ::
  "'s framework \<Rightarrow> view \<Rightarrow> 's \<Rightarrow> (error + (string \<rightharpoonup> pyval)) \<times> 's" where
  "get_ajax_try fw self s =
    (case get_object fw self of
       Inl e \<Rightarrow> (Inl e, s)
     | Inr object \<Rightarrow>
        (case get_score fw object s of
           (Inl e, s') \<Rightarrow> (Inl e, s')
         | (Inr score, s') \<Rightarrow> (Inr (get_context_data [''score'' \<mapsto> score]), s')))"

definition get_ajax :: "'s framework \<Rightarrow> view \<Rightarrow> 's \<Rightarrow> (error + response) \<times> 's" where
  "get_ajax fw self s =
    (case get_ajax_try fw self s of
       (r, s') \<Rightarrow>
        (case except_AttributeError r of
           Inl e \<Rightarrow> (Inl e, s')
         | Inr context \<Rightarrow> (render_json_response fw context, s')))"

text \<open>
  Lines 181 to 195 of \<^verbatim>\<open>post\<close>: the choice of the redirect target. The names
  \<^verbatim>\<open>post_vote_redirect\<close> (line 181) and \<^verbatim>\<open>obj\<close> (line 186) are read as written, that
  is as globals, not as attributes of \<^verbatim>\<open>self\<close>. No value of the module namespace has an
  attribute \<^verbatim>\<open>get_absolute_url\<close>, so \<^verbatim>\<open>getattr\<close> on one raises.
\<close>

definition getattr :: "pyval \<Rightarrow> string \<Rightarrow> error + pyval" where
  "getattr v name = Inl (AttributeError ''%r has no attribute %r'' [v, PyStr name])"

fun callable :: "pyval \<Rightarrow> bool" where
  "callable (PyOpaque n) = True"
| "callable (PyModel m) = True"
| "callable v = False"

fun call_get_absolute_url :: "url_attr \<Rightarrow> error + pyval" where
  "call_get_absolute_url (UrlMethod url) = Inr url"
| "call_get_absolute_url (UrlProperty url) = Inl (TypeError ''object is not callable'')"

fun read_get_absolute_url :: "url_attr \<Rightarrow> pyval" where
  "read_get_absolute_url (UrlMethod url) = PyOpaque ''bound method get_absolute_url''"
| "read_get_absolute_url (UrlProperty url) = url"

definition post_next :: "view \<Rightarrow> entity \<Rightarrow> error + pyval" where
  "post_next self object =
    (case load_global ''post_vote_redirect'' of
       Inl e \<Rightarrow> Inl e
     | Inr redirect \<Rightarrow>
        if redirect \<noteq> PyNone then Inr redirect
        else
          (case GET (request self) ''next'' of
             Some n \<Rightarrow> Inr n
           | None \<Rightarrow>
              (case get_absolute_url object of
                 Some url \<Rightarrow>
                  (case load_global ''obj'' of
                     Inl e \<Rightarrow> Inl e
                   | Inr obj \<Rightarrow>
                      (case getattr obj ''get_absolute_url'' of
                         Inl e \<Rightarrow> Inl e
                       | Inr g \<Rightarrow>
                          if callable g then call_get_absolute_url url
                          else Inr (read_get_absolute_url url)))
               | None \<Rightarrow>
                  Inl (AttributeError
                    (''Generic vote view must be called with either post_vote_redirect, ''
                     @ ''a '' @ [CHR 0x22] @ ''next'' @ [CHR 0x22]
                     @ '' parameter in the request, or the object being voted on ''
                     @ ''must define a get_absolute_url method or property.'') []))))"

text \<open>\<^verbatim>\<open>post\<close>, lines 177 to 197.\<close>

definition post :: "'s framework \<Rightarrow> view \<Rightarrow> 's \<Rightarrow> (error + response) \<times> 's" where
  "post fw self s =
    (case get_object fw self of
       Inl e \<Rightarrow> (Inl e, s)
     | Inr object \<Rightarrow>
        (case vote_on_object fw self object s of
           (Inl e, s') \<Rightarrow> (Inl e, s')
         | (Inr v, s') \<Rightarrow>
            (case post_next self object of
               Inl e \<Rightarrow> (Inl e, s')
             | Inr n \<Rightarrow> (Inr (HttpResponseRedirect n), s'))))"

text \<open>\<^verbatim>\<open>post_ajax\<close>, lines 199 to 210; the first definition is the body of its \<^verbatim>\<open>try\<close>.\<close>

definition post_ajax_try ::
  "'s framework \<Rightarrow> view \<Rightarrow> 's \<Rightarrow> (error + (string \<rightharpoonup> pyval)) \<times> 's" where
  "post_ajax_try fw self s =
    (case get_object fw self of
       Inl e \<Rightarrow> (Inl e, s)
     | Inr object \<Rightarrow>
        (case vote_on_object fw self object s of
           (Inl e, s') \<Rightarrow> (Inl e, s')
         | (Inr vote, s') \<Rightarrow>
            (case get_score fw object s' of
               (Inl e, s'') \<Rightarrow> (Inl e, s'')
             | (Inr score, s'') \<Rightarrow>
                (Inr (get_context_data
                        [''score'' \<mapsto> score, ''vote'' \<mapsto> vote, ''success'' \<mapsto> PyBool True]),
                 s''))))"

definition post_ajax :: "'s framework \<Rightarrow> view \<Rightarrow> 's \<Rightarrow> (error + response) \<times> 's" where
  "post_ajax fw self s =
    (case post_ajax_try fw self s of
       (r, s') \<Rightarrow>
        (case except_AttributeError r of
           Inl e \<Rightarrow> (Inl e, s')
         | Inr context \<Rightarrow> (render_json_response fw context, s')))"

section \<open>The route of urls.py\<close>

text \<open>
  The one pattern of \<^verbatim>\<open>urls.py\<close> is a regular expression with four named groups. A
  regular expression is matched by backtracking: \<open>rx_match r (s, g)\<close> lists, in the order
  in which the matcher tries them, the ways in which \<open>r\<close> matches a prefix of \<open>s\<close>, each as
  the rest of the input and the groups captured so far. A character class is given by
  its members; \<^verbatim>\<open>\w\<close> and \<^verbatim>\<open>\d\<close> are taken over ASCII.
\<close>

datatype regex =
    Lit string
  | OneOrMore string
  | Alt regex regex
  | Seq regex regex
  | Group string regex
  | Eol

fun spans :: "string \<Rightarrow> string \<Rightarrow> string list" where
  "spans cls [] = []"
| "spans cls (c # cs) = (if c \<in> set cls then spans cls cs @ [cs] else [])"

fun rx_match ::
  "regex \<Rightarrow> string \<times> (string \<rightharpoonup> string) \<Rightarrow> (string \<times> (string \<rightharpoonup> string)) list" where
  "rx_match (Lit l) (s, g) = (if take (length l) s = l then [(drop (length l) s, g)] else [])"
| "rx_match (OneOrMore cls) (s, g) = map (\<lambda>rest. (rest, g)) (spans cls s)"
| "rx_match (Alt a b) x = rx_match a x @ rx_match b x"
| "rx_match (Seq a b) x = concat (map (rx_match b) (rx_match a x))"
| "rx_match (Group name r) (s, g) =
     map (\<lambda>(rest, g'). (rest, g'(name \<mapsto> take (length s - length rest) s)))
       (rx_match r (s, g))"
| "rx_match Eol (s, g) = (if s = [] \<or> s = [CHR 0x0A] then [(s, g)] else [])"

text \<open>The names of the groups of a regular expression.\<close>

fun group_names :: "regex \<Rightarrow> string set" where
  "group_names (Lit l) = {}"
| "group_names (OneOrMore cls) = {}"
| "group_names (Alt a b) = group_names a \<union> group_names b"
| "group_names (Seq a b) = group_names a \<union> group_names b"
| "group_names (Group name r) = insert name (group_names r)"
| "group_names Eol = {}"

definition word_chars :: string where
  "word_chars = ''abcdefghijklmnopqrstuvwxyzABCDEFGHIJKLMNOPQRSTUVWXYZ0123456789_''"

definition digit_chars :: string where
  "digit_chars = ''0123456789''"

text \<open>
  Lines 5 and 6 of \<^verbatim>\<open>urls.py\<close>. The leading \<^verbatim>\<open>^\<close> is the start of the input, where
  \<open>rx_match\<close> begins.
\<close>

definition voting_vote_regex :: regex where
  "voting_vote_regex =
    Seq (Lit ''vote/'')
   (Seq (Group ''app_label'' (OneOrMore (word_chars @ ''.-'')))
   (Seq (Lit ''/'')
   (Seq (Group ''model_name'' (OneOrMore word_chars))
   (Seq (Lit ''/'')
   (Seq (Group ''object_id'' (OneOrMore digit_chars))
   (Seq (Lit ''/'')
   (Seq (Group ''direction'' (Alt (Lit ''up'') (Alt (Lit ''down'') (Lit ''clear''))))
   (Seq (Lit ''/'') Eol))))))))"

text \<open>
  The resolver takes the first match of the pattern on the path (without its leading
  slash) and passes the named groups to the view as keyword arguments.
\<close>

definition resolve :: "string \<Rightarrow> (string \<rightharpoonup> pyval) option" where
  "resolve path =
    (case rx_match voting_vote_regex (path, Map.empty) of
       [] \<Rightarrow> None
     | (rest, g) # others \<Rightarrow> Some (\<lambda>name. map_option PyStr (g name)))"

section \<open>The vote store of the specification\<close>

text \<open>
  Modelled from the spec: the vote manager \<^verbatim>\<open>Vote.objects\<close> (\<^verbatim>\<open>voting/models.py\<close> is not
  among the sources), as section 4.1 describes its three operations on the vote records of
  section 3. The store is the list of vote records, at most one for an entity and a voter.
\<close>

type_synonym vote_store = "vote list"

definition vote_on :: "entity \<Rightarrow> vote \<Rightarrow> bool" where
  "vote_on obj v = (votable_type v = entity_type obj \<and> votable_id v = entity_pk obj)"

definition vote_of :: "entity \<Rightarrow> nat \<Rightarrow> vote \<Rightarrow> bool" where
  "vote_of obj voter v = (vote_on obj v \<and> voter_id v = voter)"

text \<open>
  Modelled from the spec: \<^verbatim>\<open>record_vote\<close> upserts the vote of the voter on the entity to
  the given direction and returns it; a direction outside +1, 0, -1 is refused.
\<close>

definition store_record_vote ::
  "entity \<Rightarrow> nat \<Rightarrow> int \<Rightarrow> vote_store \<Rightarrow> (error + pyval) \<times> vote_store" where
  "store_record_vote obj voter d s =
    (if d \<noteq> 1 \<and> d \<noteq> 0 \<and> d \<noteq> - 1 then (Inl (OtherError ''InvalidDirection''), s)
     else
       let v = \<lparr>votable_type = entity_type obj, votable_id = entity_pk obj,
                voter_id = voter, direction = d\<rparr>
       in (Inr (PyVote v), v # filter (\<lambda>w. \<not> vote_of obj voter w) s))"

text \<open>
  Modelled from the spec: \<^verbatim>\<open>toggle\<close> sets the vote to up when there is none, and clears
  an up vote, returning None. The specification leaves open what an existing vote that is
  not up becomes; that direction is the parameter \<open>other\<close>.
\<close>

definition store_toggle ::
  "int \<Rightarrow> entity \<Rightarrow> nat \<Rightarrow> vote_store \<Rightarrow> (error + pyval) \<times> vote_store" where
  "store_toggle other obj voter s =
    (case filter (vote_of obj voter) s of
       [] \<Rightarrow> store_record_vote obj voter 1 s
     | v # vs \<Rightarrow>
        if direction v = 1 then (Inr PyNone, filter (\<lambda>w. \<not> vote_of obj voter w) s)
        else store_record_vote obj voter other s)"

text \<open>
  Modelled from the spec: \<^verbatim>\<open>get_score\<close> returns the sum of the directions of the votes
  on the entity, and leaves the store as it is.
\<close>

definition store_get_score :: "entity \<Rightarrow> vote_store \<Rightarrow> (error + pyval) \<times> vote_store" where
  "store_get_score obj s = (Inr (PyInt (sum_list (map direction (filter (vote_on obj) s)))), s)"

definition store_manager :: "vote_store vote_manager" where
  "store_manager =
    \<lparr>objects_record_vote = store_record_vote,
     objects_toggle = store_toggle 1,
     objects_get_score = store_get_score\<rparr>"

section \<open>An example installation\<close>

text \<open>
  One application \<^verbatim>\<open>blog\<close> with one model \<^verbatim>\<open>entry\<close>, whose table holds two rows: primary
  key 1 with slug \<^verbatim>\<open>first\<close>, and primary key 2 with slug \<^verbatim>\<open>second\<close>, an instance
  without \<^verbatim>\<open>get_absolute_url\<close>. The examples below run the views on it, for voter 7.
\<close>

definition entry_model :: model_class where
  "entry_model = \<lparr>meta_app_label = ''blog'', meta_object_name = ''Entry'', meta_pk_name = ''id''\<rparr>"

definition entry_1 :: entity where
  "entry_1 =
    \<lparr>entity_type = ''blog.entry'', entity_pk = 1,
     get_absolute_url = Some (UrlMethod (PyStr ''/blog/first/''))\<rparr>"

definition entry_2 :: entity where
  "entry_2 = \<lparr>entity_type = ''blog.entry'', entity_pk = 2, get_absolute_url = None\<rparr>"

text \<open>
  The renderers of the example. \<^verbatim>\<open>render_json_response\<close> of braces serialises the
  context with \<^verbatim>\<open>json.dumps\<close> and Django's \<^verbatim>\<open>DjangoJSONEncoder\<close>: None, booleans,
  numbers, strings and dictionaries of these are serialised; on any other object (a model
  class or instance, an exception) the encoder raises TypeError.
  \<^verbatim>\<open>render_to_response\<close> of TemplateResponseMixin asks for the template names first,
  and \<^verbatim>\<open>VoteView\<close> sets no \<^verbatim>\<open>template_name\<close>: it raises ImproperlyConfigured.
\<close>

fun json_serializable :: "pyval \<Rightarrow> bool" where
  "json_serializable PyNone = True"
| "json_serializable (PyBool b) = True"
| "json_serializable (PyInt i) = True"
| "json_serializable (PyStr s) = True"
| "json_serializable (PyDict kvs) = list_all (\<lambda>kv. json_serializable (snd kv)) kvs"
| "json_serializable (PyModel m) = False"
| "json_serializable (PyVote v) = False"
| "json_serializable (PyOpaque n) = False"
| "json_serializable (PyExc e) = False"

definition braces_render_json_response :: "(string \<rightharpoonup> pyval) \<Rightarrow> error + response" where
  "braces_render_json_response context =
    (if \<exists>v \<in> ran context. \<not> json_serializable v
     then Inl (TypeError ''is not JSON serializable'')
     else Inr (JsonResponse context))"

definition template_render_to_response :: "(string \<rightharpoonup> pyval) \<Rightarrow> error + response" where
  "template_render_to_response context = Inl (OtherError ''ImproperlyConfigured'')"

definition blog :: "vote_store framework" where
  "blog =
    \<lparr>models_get_model =
       (\<lambda>app_label model_name.
          if app_label = PyStr ''blog'' \<and> model_name = PyStr ''entry''
          then PyModel entry_model else PyNone),
     default_manager_get =
       (\<lambda>m lookup_kwargs.
          if lookup_kwargs = [(''id__exact'', PyStr ''1'')]
             \<or> lookup_kwargs = [(''slug__exact'', PyStr ''first'')]
          then Inr entry_1
          else if lookup_kwargs = [(''id__exact'', PyStr ''2'')]
                  \<or> lookup_kwargs = [(''slug__exact'', PyStr ''second'')]
          then Inr entry_2
          else Inl ObjectDoesNotExist),
     vote_objects = store_manager,
     render_to_response = template_render_to_response,
     render_json_response = braces_render_json_response\<rparr>"

definition request_of_voter_7 :: request where
  "request_of_voter_7 = \<lparr>user = 7, GET = Map.empty\<rparr>"

definition view_with :: "(string \<rightharpoonup> pyval) \<Rightarrow> view" where
  "view_with kw =
    \<lparr>kwargs = kw, request = request_of_voter_7, slug_field = ''slug'',
     post_vote_redirect = PyNone\<rparr>"

section \<open>What the unbound names do\<close>

lemma load_global_model_label: "load_global ''model_label'' = Inl (NameError ''model_label'')"
  by (simp add: load_global_def views_globals_def)

lemma load_global_post_vote_redirect:
  "load_global ''post_vote_redirect'' = Inl (NameError ''post_vote_redirect'')"
  by (simp add: load_global_def views_globals_def)

text \<open>
  Without an explicit \<^verbatim>\<open>model\<close> argument, \<^verbatim>\<open>get_model\<close> never reaches the model
  registry: it raises AttributeError when \<^verbatim>\<open>app_label\<close> is missing, and NameError
  otherwise.
\<close>

lemma get_model_cases:
  "get_model fw self =
    (if truthy (kwargs_get self ''model'') then Inr (kwargs_get self ''model'')
     else if truthy (kwargs_get self ''app_label'') then Inl (NameError ''model_label'')
     else Inl (AttributeError
                 ''Generic vote view must be called with app_label and model_label '' []))"
  by (simp add: get_model_def Let_def load_global_model_label app_label_url_kwarg_def)

text \<open>The redirect target is never computed: line 181 raises first.\<close>

lemma post_next_raises: "post_next self obj = Inl (NameError ''post_vote_redirect'')"
  by (simp add: post_next_def load_global_post_vote_redirect)

section \<open>Exceptions in the two write handlers\<close>

lemma post_resolution_failure:
  "get_object fw self = Inl e \<Longrightarrow> post fw self s = (Inl e, s)"
  by (simp add: post_def)

lemma post_vote_failure:
  "get_object fw self = Inr obj \<Longrightarrow> vote_on_object fw self obj s = (Inl e, s')
    \<Longrightarrow> post fw self s = (Inl e, s')"
  by (simp add: post_def)

lemma post_ajax_resolution_failure:
  "get_object fw self = Inl e \<Longrightarrow>
     post_ajax fw self s =
       (case except_AttributeError (Inl e) of
          Inl e' \<Rightarrow> (Inl e', s) | Inr c \<Rightarrow> (render_json_response fw c, s))"
  by (simp add: post_ajax_def post_ajax_try_def)

lemma post_ajax_vote_failure:
  "get_object fw self = Inr obj \<Longrightarrow> vote_on_object fw self obj s = (Inl e, s') \<Longrightarrow>
     post_ajax fw self s =
       (case except_AttributeError (Inl e) of
          Inl e' \<Rightarrow> (Inl e', s') | Inr c \<Rightarrow> (render_json_response fw c, s'))"
  by (simp add: post_ajax_def post_ajax_try_def)

text \<open>
  What the asynchronous handlers hand to \<^verbatim>\<open>render_json_response\<close>, whose result is
  theirs: on success the keys \<^verbatim>\<open>score\<close>, \<^verbatim>\<open>vote\<close> and \<^verbatim>\<open>success\<close> (write) or
  \<^verbatim>\<open>score\<close> (read); when the body raised AttributeError, the keys \<^verbatim>\<open>success\<close> and
  \<^verbatim>\<open>error\<close>, the latter holding the exception object.
\<close>

lemma post_ajax_success:
  assumes "get_object fw self = Inr obj"
      and "vote_on_object fw self obj s = (Inr v, s')"
      and "get_score fw obj s' = (Inr score, s'')"
  shows "post_ajax fw self s =
           (render_json_response fw
              [''score'' \<mapsto> score, ''vote'' \<mapsto> v, ''success'' \<mapsto> PyBool True], s'')"
  using assms
  by (simp add: post_ajax_def post_ajax_try_def get_context_data_def)

lemma post_ajax_catches_resolution:
  "get_object fw self = Inl (AttributeError fmt args) \<Longrightarrow>
     post_ajax fw self s =
       (render_json_response fw
          [''success'' \<mapsto> PyBool False, ''error'' \<mapsto> PyExc (AttributeError fmt args)], s)"
  by (simp add: post_ajax_resolution_failure)

lemma post_ajax_catches_vote:
  "get_object fw self = Inr obj \<Longrightarrow>
   vote_on_object fw self obj s = (Inl (AttributeError fmt args), s') \<Longrightarrow>
     post_ajax fw self s =
       (render_json_response fw
          [''success'' \<mapsto> PyBool False, ''error'' \<mapsto> PyExc (AttributeError fmt args)], s')"
  by (simp add: post_ajax_vote_failure)

text \<open>\<^verbatim>\<open>post\<close> returns no response on any input: it ends in an exception.\<close>

lemma post_always_raises: "\<exists>e. fst (post fw self s) = Inl e"
  by (simp add: post_def post_next_raises split: sum.splits prod.splits)

lemma get_ajax_success:
  assumes "get_object fw self = Inr obj" and "get_score fw obj s = (Inr score, s')"
  shows "get_ajax fw self s = (render_json_response fw [''score'' \<mapsto> score], s')"
  using assms
  by (simp add: get_ajax_def get_ajax_try_def get_context_data_def)

lemma get_ajax_resolution_failure:
  "get_object fw self = Inl (AttributeError fmt args) \<Longrightarrow>
     get_ajax fw self s =
       (render_json_response fw
          [''success'' \<mapsto> PyBool False, ''error'' \<mapsto> PyExc (AttributeError fmt args)], s)"
  by (simp add: get_ajax_def get_ajax_try_def)

text \<open>
  The renderer of braces refuses the failure context, because of the exception object in
  it, and the success context of a write, when the manager returned a vote record.
\<close>

lemma braces_refuses:
  assumes "context key = Some v" and "\<not> json_serializable v"
  shows "braces_render_json_response context = Inl (TypeError ''is not JSON serializable'')"
proof -
  from assms(1) have "v \<in> ran context" by (rule ranI)
  with assms(2) have "\<exists>v \<in> ran context. \<not> json_serializable v" by blast
  then show ?thesis by (simp only: braces_render_json_response_def if_True)
qed

lemma braces_refuses_failure_context:
  "braces_render_json_response [''success'' \<mapsto> PyBool False, ''error'' \<mapsto> PyExc e]
     = Inl (TypeError ''is not JSON serializable'')"
  by (rule braces_refuses [of _ "''error''" "PyExc e"]) simp_all

lemma braces_refuses_vote:
  "braces_render_json_response
     [''score'' \<mapsto> score, ''vote'' \<mapsto> PyVote v, ''success'' \<mapsto> PyBool True]
     = Inl (TypeError ''is not JSON serializable'')"
  by (rule braces_refuses [of _ "''vote''" "PyVote v"]) simp_all

lemma braces_renders_score:
  "braces_render_json_response [''score'' \<mapsto> PyInt n] = Inr (JsonResponse [''score'' \<mapsto> PyInt n])"
  by (simp add: braces_render_json_response_def)

lemma get_object_missing_row:
  "get_object blog (view_with [''model'' \<mapsto> PyModel entry_model, ''object_id'' \<mapsto> PyStr ''999''])
     = Inl (AttributeError ''No %s found for %s.''
              [PyStr ''blog'', PyDict [(''id__exact'', PyStr ''999'')]])"
  by (simp add: get_object_def get_model_cases get_object_lookup_def kwargs_get_def
        view_with_def blog_def entry_model_def pk_url_kwarg_def slug_url_kwarg_def
        get_slug_field_def)

lemma get_ajax_missing_row:
  "get_ajax blog
     (view_with [''model'' \<mapsto> PyModel entry_model, ''object_id'' \<mapsto> PyStr ''999'']) []
     = (Inl (TypeError ''is not JSON serializable''), [])"
proof -
  have "render_json_response blog = braces_render_json_response"
    by (simp add: blog_def)
  then show ?thesis
    by (simp add: get_ajax_resolution_failure [OF get_object_missing_row]
          braces_refuses_failure_context)
qed

section \<open>The read handlers and the vote manager\<close>

lemma get_object_vote_objects:
  "get_object (fw\<lparr>vote_objects := m\<rparr>) self = get_object fw self"
  by (simp add: get_object_def get_model_cases cong: sum.case_cong)

lemma get_score_vote_objects:
  "get_score (fw\<lparr>vote_objects :=
       (vote_objects fw)\<lparr>objects_record_vote := rv, objects_toggle := tg\<rparr>\<rparr>) obj s
     = get_score fw obj s"
  by (simp add: get_score_def)

lemma get_score_store:
  "\<forall>obj s. snd (objects_get_score (vote_objects fw) obj s) = s \<Longrightarrow>
     get_score fw obj s = (r, s') \<Longrightarrow> s' = s"
  by (metis get_score_def snd_conv)

lemma get_store:
  assumes "\<forall>obj s. snd (objects_get_score (vote_objects fw) obj s) = s"
  shows "snd (get fw self s) = s"
proof (cases "get_object fw self")
  case (Inl e)
  then show ?thesis by (simp add: get_def)
next
  case (Inr obj)
  obtain r s' where sc: "get_score fw obj s = (r, s')" by (cases "get_score fw obj s")
  with assms have "s' = s" by (rule get_score_store)
  with Inr sc show ?thesis by (cases r) (simp_all add: get_def)
qed

lemma get_ajax_try_store:
  assumes "\<forall>obj s. snd (objects_get_score (vote_objects fw) obj s) = s"
  shows "snd (get_ajax_try fw self s) = s"
proof (cases "get_object fw self")
  case (Inl e)
  then show ?thesis by (simp add: get_ajax_try_def)
next
  case (Inr obj)
  obtain r s' where sc: "get_score fw obj s = (r, s')" by (cases "get_score fw obj s")
  with assms have "s' = s" by (rule get_score_store)
  with Inr sc show ?thesis by (cases r) (simp_all add: get_ajax_try_def)
qed

lemma get_ajax_snd: "snd (get_ajax fw self s) = snd (get_ajax_try fw self s)"
  by (simp add: get_ajax_def split: prod.splits sum.splits)

lemma get_vote_objects:
  "get (fw\<lparr>vote_objects :=
       (vote_objects fw)\<lparr>objects_record_vote := rv, objects_toggle := tg\<rparr>\<rparr>) self s
     = get fw self s"
  by (cases "get_object fw self")
     (simp_all add: get_def get_object_vote_objects get_score_vote_objects
        split: prod.splits sum.splits)

lemma get_ajax_try_vote_objects:
  "get_ajax_try (fw\<lparr>vote_objects :=
       (vote_objects fw)\<lparr>objects_record_vote := rv, objects_toggle := tg\<rparr>\<rparr>) self s
     = get_ajax_try fw self s"
  by (cases "get_object fw self")
     (simp_all add: get_ajax_try_def get_object_vote_objects get_score_vote_objects)

lemma get_ajax_vote_objects:
  "get_ajax (fw\<lparr>vote_objects :=
       (vote_objects fw)\<lparr>objects_record_vote := rv, objects_toggle := tg\<rparr>\<rparr>) self s
     = get_ajax fw self s"
  by (simp add: get_ajax_def get_ajax_try_vote_objects split: prod.splits sum.splits)

lemma store_get_score_reads:
  "\<forall>obj s. snd (objects_get_score (vote_objects blog) obj s) = s"
  by (simp add: blog_def store_manager_def store_get_score_def)

section \<open>Object lookup\<close>


text \<open>
  When \<^verbatim>\<open>lookup_kwargs\<close> is built it has one entry, for the primary key or for the slug
  field, never both.
\<close>

lemma get_object_lookup_one_entry:
  assumes "get_object_lookup self (PyModel m) = Inr lookup_kwargs"
  shows "lookup_kwargs = [(meta_pk_name m @ ''__exact'', kwargs_get self ''object_id'')]
       \<or> lookup_kwargs = [(slug_field self @ ''__exact'', kwargs_get self ''slug'')]"
  using assms
  by (simp add: get_object_lookup_def Let_def pk_url_kwarg_def slug_url_kwarg_def
        get_slug_field_def split: if_splits)

text \<open>
  With a model class at hand, a request with neither identifier is refused with
  AttributeError.
\<close>

lemma get_object_lookup_neither:
  assumes "kwargs self ''object_id'' = None" and "kwargs self ''slug'' = None"
  shows "get_object_lookup self model =
           Inl (AttributeError
             ''Generic vote view must be called with either object_id or slug and slug_field.''
             [])"
  using assms
  by (simp add: get_object_lookup_def Let_def pk_url_kwarg_def slug_url_kwarg_def
        kwargs_get_def)

section \<open>Matching the route\<close>

lemma rx_match_Seq_iff:
  "(r, g) \<in> set (rx_match (Seq a b) x)
     \<longleftrightarrow> (\<exists>y \<in> set (rx_match a x). (r, g) \<in> set (rx_match b y))"
  by auto

lemma rx_match_Seq_tail:
  assumes "(r, g) \<in> set (rx_match (Seq a b) x)"
      and "\<And>y r' g'. (r', g') \<in> set (rx_match b y) \<Longrightarrow> P g'"
  shows "P g"
  using assms by auto

lemma rx_match_Lit_groups: "(r, g') \<in> set (rx_match (Lit l) (s, g)) \<Longrightarrow> g' = g"
  by (simp split: if_splits)

lemma rx_match_Eol_groups: "(r, g') \<in> set (rx_match Eol (s, g)) \<Longrightarrow> g' = g"
  by (auto split: if_splits)

lemma take_matched_literal:
  "take (length l) s = l \<Longrightarrow> take (length s - length (drop (length l) s)) s = l"
  by (metis diff_diff_cancel length_drop length_take min.absorb2 nat_le_linear take_all)

lemma direction_group:
  assumes "(r, g') \<in> set (rx_match (Group ''direction''
             (Alt (Lit ''up'') (Alt (Lit ''down'') (Lit ''clear'')))) (s, g))"
  shows "g' ''direction'' \<in> {Some ''up'', Some ''down'', Some ''clear''}"
  using assms take_matched_literal[of "''up''" s] take_matched_literal[of "''down''" s]
    take_matched_literal[of "''clear''" s]
  by (auto split: if_splits)

lemma direction_tail:
  assumes "(r, g') \<in> set (rx_match
             (Seq (Group ''direction'' (Alt (Lit ''up'') (Alt (Lit ''down'') (Lit ''clear''))))
                  (Seq (Lit ''/'') Eol)) y)"
  shows "g' ''direction'' \<in> {Some ''up'', Some ''down'', Some ''clear''}"
proof -
  obtain s g where y: "y = (s, g)" by (cases y)
  from assms obtain z
    where z: "z \<in> set (rx_match (Group ''direction''
                 (Alt (Lit ''up'') (Alt (Lit ''down'') (Lit ''clear'')))) (s, g))"
      and t: "(r, g') \<in> set (rx_match (Seq (Lit ''/'') Eol) z)"
    unfolding y rx_match_Seq_iff by blast
  obtain s1 g1 where z1: "z = (s1, g1)" by (cases z)
  from t obtain w
    where w: "w \<in> set (rx_match (Lit ''/'') (s1, g1))"
      and e: "(r, g') \<in> set (rx_match Eol w)"
    unfolding z1 rx_match_Seq_iff by blast
  obtain s2 g2 where w2: "w = (s2, g2)" by (cases w)
  from w have "g2 = g1" unfolding w2 by (rule rx_match_Lit_groups)
  moreover from e have "g' = g2" unfolding w2 by (rule rx_match_Eol_groups)
  moreover from z have "g1 ''direction'' \<in> {Some ''up'', Some ''down'', Some ''clear''}"
    unfolding z1 by (rule direction_group)
  ultimately show ?thesis by simp
qed

lemma voting_vote_regex_direction:
  "(r, g) \<in> set (rx_match voting_vote_regex x)
    \<Longrightarrow> g ''direction'' \<in> {Some ''up'', Some ''down'', Some ''clear''}"
  unfolding voting_vote_regex_def
  apply (erule rx_match_Seq_tail)
  apply (erule rx_match_Seq_tail)
  apply (erule rx_match_Seq_tail)
  apply (erule rx_match_Seq_tail)
  apply (erule rx_match_Seq_tail)
  apply (erule rx_match_Seq_tail)
  apply (erule rx_match_Seq_tail)
  apply (erule direction_tail)
  done

lemma resolve_direction:
  assumes "resolve path = Some kw"
  shows "kw ''direction'' \<in> {Some (PyStr ''up''), Some (PyStr ''down''), Some (PyStr ''clear'')}"
proof -
  from assms obtain r g others
    where m: "rx_match voting_vote_regex (path, Map.empty) = (r, g) # others"
      and kw: "kw = (\<lambda>name. map_option PyStr (g name))"
    by (auto simp: resolve_def split: list.splits)
  from m have "(r, g) \<in> set (rx_match voting_vote_regex (path, Map.empty))" by simp
  then have "g ''direction'' \<in> {Some ''up'', Some ''down'', Some ''clear''}"
    by (rule voting_vote_regex_direction)
  then show ?thesis unfolding kw by auto
qed

lemma rx_match_frame:
  "(r, g') \<in> set (rx_match rx (s, g)) \<Longrightarrow> k \<notin> group_names rx \<Longrightarrow> g' k = g k"
proof (induction rx arbitrary: s g r g')
  case (Lit l)
  then show ?case by (simp split: if_splits)
next
  case (OneOrMore cls)
  then show ?case by auto
next
  case (Alt a b)
  then show ?case by auto
next
  case (Seq a b)
  from Seq.prems(1) obtain s1 g1
    where a: "(s1, g1) \<in> set (rx_match a (s, g))" and b: "(r, g') \<in> set (rx_match b (s1, g1))"
    by auto
  from Seq.prems(2) have "k \<notin> group_names a" "k \<notin> group_names b" by simp_all
  with a b Seq.IH show ?case by metis
next
  case (Group name rx)
  from Group.prems(1) obtain g1
    where m: "(r, g1) \<in> set (rx_match rx (s, g))"
      and g': "g' = g1(name \<mapsto> take (length s - length r) s)"
    by auto
  from Group.prems(2) have "k \<noteq> name" "k \<notin> group_names rx" by simp_all
  with m g' Group.IH show ?case by simp
next
  case Eol
  then show ?case by (auto split: if_splits)
qed

lemma spans_shorter: "rest \<in> set (spans cls s) \<Longrightarrow> length rest < length s"
  by (induction s) (auto split: if_splits)

lemma group_OneOrMore_nonempty:
  assumes "(r, g') \<in> set (rx_match (Group name (OneOrMore cls)) (s, g))"
  shows "\<exists>a. a \<noteq> [] \<and> g' name = Some a"
proof -
  from assms have "r \<in> set (spans cls s)" and g': "g' name = Some (take (length s - length r) s)"
    by auto
  then have "length r < length s" by (simp add: spans_shorter)
  then have "take (length s - length r) s \<noteq> []" by auto
  with g' show ?thesis by simp
qed

lemma second_group_nonempty:
  assumes "(r, g) \<in> set (rx_match (Seq l (Seq (Group name (OneOrMore cls)) rest)) x)"
      and "name \<notin> group_names rest"
  shows "\<exists>a. a \<noteq> [] \<and> g name = Some a"
proof -
  from assms(1) obtain y where "(r, g) \<in> set (rx_match (Seq (Group name (OneOrMore cls)) rest) y)"
    unfolding rx_match_Seq_iff [of r g l] by blast
  then obtain z where z: "z \<in> set (rx_match (Group name (OneOrMore cls)) y)"
    and t: "(r, g) \<in> set (rx_match rest z)"
    unfolding rx_match_Seq_iff [of r g "Group name (OneOrMore cls)"] by blast
  obtain s1 g1 where y: "y = (s1, g1)" by (cases y)
  obtain s2 g2 where z2: "z = (s2, g2)" by (cases z)
  from z obtain a where a: "a \<noteq> []" "g2 name = Some a"
    unfolding y z2 using group_OneOrMore_nonempty by blast
  from t assms(2) have "g name = g2 name" unfolding z2 by (rule rx_match_frame)
  with a show ?thesis by simp
qed

lemma voting_vote_regex_groups:
  assumes "(r, g) \<in> set (rx_match voting_vote_regex (path, Map.empty))"
  shows "g ''model'' = None \<and> (\<exists>a. a \<noteq> [] \<and> g ''app_label'' = Some a)"
proof
  have "''model'' \<notin> group_names voting_vote_regex"
    by (simp add: voting_vote_regex_def)
  with assms have "g ''model'' = Map.empty ''model''" by (rule rx_match_frame)
  then show "g ''model'' = None" by simp
next
  from assms show "\<exists>a. a \<noteq> [] \<and> g ''app_label'' = Some a"
    unfolding voting_vote_regex_def by (rule second_group_nonempty) simp
qed

lemma resolve_kwargs:
  assumes "resolve path = Some kw"
  shows "kw ''model'' = None \<and> (\<exists>a. a \<noteq> [] \<and> kw ''app_label'' = Some (PyStr a))"
proof -
  from assms obtain r g others
    where m: "rx_match voting_vote_regex (path, Map.empty) = (r, g) # others"
      and kw: "kw = (\<lambda>name. map_option PyStr (g name))"
    by (auto simp: resolve_def split: list.splits)
  from m have "(r, g) \<in> set (rx_match voting_vote_regex (path, Map.empty))" by simp
  then have "g ''model'' = None \<and> (\<exists>a. a \<noteq> [] \<and> g ''app_label'' = Some a)"
    by (rule voting_vote_regex_groups)
  then show ?thesis unfolding kw by auto
qed

text \<open>
  The route always binds a non-empty \<^verbatim>\<open>app_label\<close> and never a \<^verbatim>\<open>model\<close>, so on a routed
  request \<^verbatim>\<open>get_model\<close> raises NameError, and with it each of the four handlers.
\<close>

lemma routed_get_object:
  assumes "resolve path = Some kw" and "kwargs self = kw"
  shows "get_object fw self = Inl (NameError ''model_label'')"
proof -
  from assms(1) obtain a where "kw ''model'' = None" "a \<noteq> []" "kw ''app_label'' = Some (PyStr a)"
    using resolve_kwargs by blast
  with assms(2) have "get_model fw self = Inl (NameError ''model_label'')"
    by (simp add: get_model_cases kwargs_get_def)
  then show ?thesis by (simp add: get_object_def)
qed

lemma routed_request_raises:
  assumes "resolve path = Some kw" and "kwargs self = kw"
  shows "get fw self s = (Inl (NameError ''model_label''), s)"
    and "get_ajax fw self s = (Inl (NameError ''model_label''), s)"
    and "post fw self s = (Inl (NameError ''model_label''), s)"
    and "post_ajax fw self s = (Inl (NameError ''model_label''), s)"
  using routed_get_object[OF assms, of fw]
  by (simp_all add: get_def get_ajax_def get_ajax_try_def post_def post_ajax_def post_ajax_try_def)

lemma vote_on_object_token:
  assumes "kwargs self ''direction'' = Some (PyStr token)"
      and "(token, n) \<in> {(''up'', 1), (''down'', - 1), (''clear'', 0)}"
  shows "vote_on_object fw self obj s =
           objects_record_vote (vote_objects fw) obj (user (request self)) n s"
  using assms
  by (auto simp: vote_on_object_def kwargs_get_def directon_url_kwarg_def VOTE_DIRECTIONS_def)

text \<open>Some paths, resolved.\<close>

lemma resolve_up:
  "resolve ''vote/blog/entry/1/up/'' =
     Some (\<lambda>name. map_option PyStr
       ([''app_label'' \<mapsto> ''blog'', ''model_name'' \<mapsto> ''entry'', ''object_id'' \<mapsto> ''1'',
         ''direction'' \<mapsto> ''up''] name))"
  by (simp add: resolve_def voting_vote_regex_def word_chars_def digit_chars_def)

lemma resolve_missing_model:
  "resolve ''vote/blog/nosuch/1/up/'' =
     Some (\<lambda>name. map_option PyStr
       ([''app_label'' \<mapsto> ''blog'', ''model_name'' \<mapsto> ''nosuch'', ''object_id'' \<mapsto> ''1'',
         ''direction'' \<mapsto> ''up''] name))"
  by (simp add: resolve_def voting_vote_regex_def word_chars_def digit_chars_def)

lemma resolve_missing_object:
  "resolve ''vote/blog/entry/999/up/'' =
     Some (\<lambda>name. map_option PyStr
       ([''app_label'' \<mapsto> ''blog'', ''model_name'' \<mapsto> ''entry'', ''object_id'' \<mapsto> ''999'',
         ''direction'' \<mapsto> ''up''] name))"
  by (simp add: resolve_def voting_vote_regex_def word_chars_def digit_chars_def)

lemma resolve_no_direction: "resolve ''vote/blog/entry/1/'' = None"
  by (simp add: resolve_def voting_vote_regex_def word_chars_def digit_chars_def)

section \<open>The claims\<close>

text \<open>
  C1. A write request whose path parameters carry the direction token \<^verbatim>\<open>up\<close>,
  \<^verbatim>\<open>down\<close> or \<^verbatim>\<open>clear\<close> makes \<^verbatim>\<open>vote_on_object\<close> call \<^verbatim>\<open>record_vote\<close> with +1, -1
  or 0 respectively; a write request whose path parameters hold no direction makes it
  call \<^verbatim>\<open>toggle\<close>. In both cases \<^verbatim>\<open>vote_on_object\<close> returns what the store operation
  returned, whatever the vote manager is.
\<close>

theorem vote_on_object_direction:
  assumes "kwargs self ''direction'' = Some (PyStr token)"
      and "(token, n) \<in> {(''up'', 1), (''down'', - 1), (''clear'', 0)}"
      and "kwargs self0 ''direction'' = None"
  shows "vote_on_object fw self obj s =
           objects_record_vote (vote_objects fw) obj (user (request self)) n s
       \<and> vote_on_object fw self0 obj s =
           objects_toggle (vote_objects fw) obj (user (request self0)) s"
proof
  from assms(1,2)
  show "vote_on_object fw self obj s =
          objects_record_vote (vote_objects fw) obj (user (request self)) n s"
    by (rule vote_on_object_token)
next
  from assms(3)
  show "vote_on_object fw self0 obj s =
          objects_toggle (vote_objects fw) obj (user (request self0)) s"
    by (simp add: vote_on_object_def kwargs_get_def directon_url_kwarg_def)
qed

theorem vote_on_object_direction_witness:
  "vote_on_object blog (view_with [''direction'' \<mapsto> PyStr ''down'']) entry_1 [] =
     (Inr (PyVote \<lparr>votable_type = ''blog.entry'', votable_id = 1, voter_id = 7,
                    direction = - 1\<rparr>),
      [\<lparr>votable_type = ''blog.entry'', votable_id = 1, voter_id = 7, direction = - 1\<rparr>])
   \<and> vote_on_object blog (view_with Map.empty) entry_1 [] =
     (Inr (PyVote \<lparr>votable_type = ''blog.entry'', votable_id = 1, voter_id = 7,
                    direction = 1\<rparr>),
      [\<lparr>votable_type = ''blog.entry'', votable_id = 1, voter_id = 7, direction = 1\<rparr>])"
  using vote_on_object_direction
          [of "view_with [''direction'' \<mapsto> PyStr ''down'']" "''down''" "- 1"
              "view_with Map.empty" blog entry_1 "[]"]
  by (simp add: view_with_def blog_def store_manager_def store_record_vote_def
        store_toggle_def request_of_voter_7_def entry_1_def Let_def)

text \<open>
  C2. After a successful synchronous write the handler should redirect to the configured
  \<^verbatim>\<open>post_vote_redirect\<close>, else to the \<^verbatim>\<open>next\<close> parameter, else to the object's
  \<^verbatim>\<open>get_absolute_url\<close>. The code does not: here all three targets are available, the vote
  of voter 7 on entry 1 is recorded, and \<^verbatim>\<open>post\<close> ends in the NameError of line 181.
\<close>

theorem post_raises_after_vote:
  "post blog
     ((view_with [''model'' \<mapsto> PyModel entry_model, ''object_id'' \<mapsto> PyStr ''1'',
                  ''direction'' \<mapsto> PyStr ''up''])
        \<lparr>request := \<lparr>user = 7, GET = [''next'' \<mapsto> PyStr ''/back/'']\<rparr>,
         post_vote_redirect := PyStr ''/thanks/''\<rparr>) []
   = (Inl (NameError ''post_vote_redirect''),
      [\<lparr>votable_type = ''blog.entry'', votable_id = 1, voter_id = 7, direction = 1\<rparr>])"
  by (simp add: post_def post_next_raises get_object_def get_model_cases
        get_object_lookup_def kwargs_get_def view_with_def blog_def entry_model_def
        entry_1_def pk_url_kwarg_def slug_url_kwarg_def get_slug_field_def
        vote_on_object_def directon_url_kwarg_def VOTE_DIRECTIONS_def store_manager_def
        store_record_vote_def Let_def)

text \<open>
  C3. An asynchronous write should answer every resolution failure with the payload
  \<^verbatim>\<open>{success: false, error: ...}\<close>. The code does not: the routed path
  \<^verbatim>\<open>vote/blog/nosuch/1/up/\<close> names a model that does not exist, and \<^verbatim>\<open>post_ajax\<close>
  ends in the NameError of line 45, which its handler does not catch.
\<close>

theorem post_ajax_missing_model_escapes:
  "map_option (\<lambda>kw. post_ajax blog (view_with kw) []) (resolve ''vote/blog/nosuch/1/up/'')
   = Some (Inl (NameError ''model_label''), [])"
  by (simp add: resolve_missing_model post_ajax_def post_ajax_try_def get_object_def
        get_model_cases kwargs_get_def view_with_def)

text \<open>
  C4. An asynchronous read of an object that does not exist should answer with the
  payload \<^verbatim>\<open>{success: false, error: ...}\<close>, no exception leaving the handler. The code
  does not: on the routed path \<^verbatim>\<open>vote/blog/entry/999/up/\<close> (no row 999) \<^verbatim>\<open>get_ajax\<close>
  ends in the NameError of line 45.
\<close>

theorem get_ajax_missing_object_escapes:
  "map_option (\<lambda>kw. get_ajax blog (view_with kw) []) (resolve ''vote/blog/entry/999/up/'')
   = Some (Inl (NameError ''model_label''), [])"
  by (simp add: resolve_missing_object get_ajax_def get_ajax_try_def get_object_def
        get_model_cases kwargs_get_def view_with_def)

text \<open>
  C5. Every resolution or validation failure should be one and the same bad-input
  condition (AttributeError). The code raises three: a model that does not exist gives
  NameError on \<^verbatim>\<open>model_label\<close>; missing identifiers give AttributeError; a missing redirect
  target (entry 2 has no \<^verbatim>\<open>get_absolute_url\<close>, no \<^verbatim>\<open>next\<close>, no
  \<^verbatim>\<open>post_vote_redirect\<close>) gives NameError on \<^verbatim>\<open>post_vote_redirect\<close>.
\<close>

theorem failures_are_not_one_condition:
  "get_object blog
     (view_with [''app_label'' \<mapsto> PyStr ''blog'', ''model_name'' \<mapsto> PyStr ''nosuch'',
                 ''object_id'' \<mapsto> PyStr ''1''])
   = Inl (NameError ''model_label'')
   \<and> get_object blog (view_with [''model'' \<mapsto> PyModel entry_model])
   = Inl (AttributeError
       ''Generic vote view must be called with either object_id or slug and slug_field.'' [])
   \<and> fst (post blog
       (view_with [''model'' \<mapsto> PyModel entry_model, ''object_id'' \<mapsto> PyStr ''2'',
                   ''direction'' \<mapsto> PyStr ''up'']) [])
   = Inl (NameError ''post_vote_redirect'')"
  by (simp add: post_def post_next_raises get_object_def get_model_cases
        get_object_lookup_def kwargs_get_def view_with_def blog_def entry_model_def
        pk_url_kwarg_def slug_url_kwarg_def get_slug_field_def
        vote_on_object_def directon_url_kwarg_def VOTE_DIRECTIONS_def store_manager_def
        store_record_vote_def Let_def)

text \<open>
  C6. The synchronous write handler does not catch the bad-input condition, and the
  asynchronous one should turn the same condition into a structured error payload. The
  first half holds: the AttributeError for a row that does not exist, and the one for an
  invalid direction, leave \<^verbatim>\<open>post\<close>. The second half does not: \<^verbatim>\<open>post_ajax\<close> catches
  the exception, but puts the exception object itself under \<^verbatim>\<open>error\<close>, which the
  renderer called at line 210 cannot serialise; the handler ends in TypeError and no
  payload is rendered.
\<close>

theorem post_ajax_failure_not_rendered:
  "post blog
     (view_with [''model'' \<mapsto> PyModel entry_model, ''object_id'' \<mapsto> PyStr ''999'']) []
     = (Inl (AttributeError ''No %s found for %s.''
               [PyStr ''blog'', PyDict [(''id__exact'', PyStr ''999'')]]), [])
   \<and> post_ajax blog
       (view_with [''model'' \<mapsto> PyModel entry_model, ''object_id'' \<mapsto> PyStr ''999'']) []
     = (Inl (TypeError ''is not JSON serializable''), [])
   \<and> post blog
       (view_with [''model'' \<mapsto> PyModel entry_model, ''object_id'' \<mapsto> PyStr ''1'',
                   ''direction'' \<mapsto> PyStr ''sideways'']) []
     = (Inl (AttributeError not_a_valid_vote_type [PyStr ''sideways'']), [])
   \<and> post_ajax blog
       (view_with [''model'' \<mapsto> PyModel entry_model, ''object_id'' \<mapsto> PyStr ''1'',
                   ''direction'' \<mapsto> PyStr ''sideways'']) []
     = (Inl (TypeError ''is not JSON serializable''), [])"
proof -
  have v: "get_object blog
             (view_with [''model'' \<mapsto> PyModel entry_model, ''object_id'' \<mapsto> PyStr ''1'',
                         ''direction'' \<mapsto> PyStr ''sideways''])
           = Inr entry_1"
    by (simp add: get_object_def get_model_cases get_object_lookup_def kwargs_get_def
          view_with_def blog_def entry_model_def pk_url_kwarg_def slug_url_kwarg_def
          get_slug_field_def)
  have d: "vote_on_object blog
             (view_with [''model'' \<mapsto> PyModel entry_model, ''object_id'' \<mapsto> PyStr ''1'',
                         ''direction'' \<mapsto> PyStr ''sideways'']) entry_1 []
           = (Inl (AttributeError not_a_valid_vote_type [PyStr ''sideways'']), [])"
    by (simp add: vote_on_object_def kwargs_get_def view_with_def directon_url_kwarg_def
          VOTE_DIRECTIONS_def)
  have j: "render_json_response blog = braces_render_json_response"
    by (simp add: blog_def)
  show ?thesis
    by (simp add: post_resolution_failure [OF get_object_missing_row]
          post_ajax_catches_resolution [OF get_object_missing_row]
          post_vote_failure [OF v d] post_ajax_catches_vote [OF v d]
          j braces_refuses_failure_context)
qed

text \<open>
  C7. Lookup by object id and lookup by slug should exclude each other, and a request
  with neither should fail with the bad-input condition (AttributeError). The second half
  fails in the code: with \<^verbatim>\<open>app_label\<close> and \<^verbatim>\<open>model_name\<close> given and neither
  \<^verbatim>\<open>object_id\<close> nor \<^verbatim>\<open>slug\<close>, \<^verbatim>\<open>get_object\<close> ends in the NameError of line 45 before
  it looks at the identifiers.
\<close>

theorem get_object_neither_identifier:
  "get_object blog
     (view_with [''app_label'' \<mapsto> PyStr ''blog'', ''model_name'' \<mapsto> PyStr ''entry''])
   = Inl (NameError ''model_label'')"
  by (simp add: get_object_def get_model_cases kwargs_get_def view_with_def)

text \<open>
  C8, as the claim states it, fails: the path \<^verbatim>\<open>vote/blog/entry/1/\<close>, which omits the
  direction segment, matches no route, and no path at all is routed to the view without
  a direction among its keyword arguments.
\<close>

theorem route_without_direction_counterexample:
  "resolve ''vote/blog/entry/1/'' = None
   \<and> \<not> (\<exists>path kw. resolve path = Some kw \<and> kw ''direction'' = None)"
proof
  show "resolve ''vote/blog/entry/1/'' = None" by (rule resolve_no_direction)
next
  show "\<not> (\<exists>path kw. resolve path = Some kw \<and> kw ''direction'' = None)"
  proof
    assume "\<exists>path kw. resolve path = Some kw \<and> kw ''direction'' = None"
    then obtain path kw where r: "resolve path = Some kw" and n: "kw ''direction'' = None"
      by blast
    from r have "kw ''direction''
                 \<in> {Some (PyStr ''up''), Some (PyStr ''down''), Some (PyStr ''clear'')}"
      by (rule resolve_direction)
    with n show False by simp
  qed
qed

text \<open>
  C8, amended. The route accepts only paths whose direction segment is \<^verbatim>\<open>up\<close>,
  \<^verbatim>\<open>down\<close> or \<^verbatim>\<open>clear\<close>: every routed request carries one of these tokens, and
  \<^verbatim>\<open>vote_on_object\<close> on a routed request calls \<^verbatim>\<open>record_vote\<close> with +1, -1 or 0
  accordingly, not \<^verbatim>\<open>toggle\<close>.
\<close>

theorem route_requires_direction:
  assumes "resolve path = Some kw" and "kwargs self = kw"
  shows "(kw ''direction'' = Some (PyStr ''up'')
          \<and> vote_on_object fw self obj s =
              objects_record_vote (vote_objects fw) obj (user (request self)) 1 s)
       \<or> (kw ''direction'' = Some (PyStr ''down'')
          \<and> vote_on_object fw self obj s =
              objects_record_vote (vote_objects fw) obj (user (request self)) (- 1) s)
       \<or> (kw ''direction'' = Some (PyStr ''clear'')
          \<and> vote_on_object fw self obj s =
              objects_record_vote (vote_objects fw) obj (user (request self)) 0 s)"
proof -
  from assms(1)
  have "kw ''direction''
          \<in> {Some (PyStr ''up''), Some (PyStr ''down''), Some (PyStr ''clear'')}"
    by (rule resolve_direction)
  then consider "kwargs self ''direction'' = Some (PyStr ''up'')"
    | "kwargs self ''direction'' = Some (PyStr ''down'')"
    | "kwargs self ''direction'' = Some (PyStr ''clear'')"
    using assms(2) by auto
  then show ?thesis
  proof cases
    case 1
    then show ?thesis using assms(2) by (simp add: vote_on_object_token [where n = 1])
  next
    case 2
    then show ?thesis using assms(2) by (simp add: vote_on_object_token [where n = "- 1"])
  next
    case 3
    then show ?thesis using assms(2) by (simp add: vote_on_object_token [where n = 0])
  qed
qed

theorem route_requires_direction_witness:
  "resolve ''vote/blog/entry/1/up/'' \<noteq> None
   \<and> the (resolve ''vote/blog/entry/1/up/'') ''direction'' = Some (PyStr ''up'')
   \<and> vote_on_object blog (view_with (the (resolve ''vote/blog/entry/1/up/''))) entry_1 [] =
       (Inr (PyVote \<lparr>votable_type = ''blog.entry'', votable_id = 1, voter_id = 7,
                      direction = 1\<rparr>),
        [\<lparr>votable_type = ''blog.entry'', votable_id = 1, voter_id = 7, direction = 1\<rparr>])"
  using route_requires_direction
          [OF resolve_up, of "view_with (the (resolve ''vote/blog/entry/1/up/''))"
              blog entry_1 "[]"]
  by (simp add: resolve_up view_with_def blog_def store_manager_def store_record_vote_def
        request_of_voter_7_def entry_1_def Let_def)



text \<open>
  C10. Neither read handler changes the stored votes. \<^verbatim>\<open>get\<close> and \<^verbatim>\<open>get_ajax\<close> do not
  depend on \<^verbatim>\<open>record_vote\<close> and \<^verbatim>\<open>toggle\<close> (replacing the two operations by any others
  changes neither result), and with a \<^verbatim>\<open>get_score\<close> that only reads the store, as the
  specification describes it, both return the store they were given.
\<close>

theorem reads_leave_votes:
  assumes "\<forall>obj s. snd (objects_get_score (vote_objects fw) obj s) = s"
  shows "snd (get fw self s) = s \<and> snd (get_ajax fw self s) = s
       \<and> get (fw\<lparr>vote_objects :=
             (vote_objects fw)\<lparr>objects_record_vote := rv, objects_toggle := tg\<rparr>\<rparr>) self s
           = get fw self s
       \<and> get_ajax (fw\<lparr>vote_objects :=
             (vote_objects fw)\<lparr>objects_record_vote := rv, objects_toggle := tg\<rparr>\<rparr>) self s
           = get_ajax fw self s"
  using assms
  by (simp add: get_store get_ajax_snd get_ajax_try_store get_vote_objects
        get_ajax_vote_objects)

theorem reads_leave_votes_witness:
  "snd (get blog (view_with [''model'' \<mapsto> PyModel entry_model, ''object_id'' \<mapsto> PyStr ''1''])
          [\<lparr>votable_type = ''blog.entry'', votable_id = 1, voter_id = 7, direction = 1\<rparr>])
     = [\<lparr>votable_type = ''blog.entry'', votable_id = 1, voter_id = 7, direction = 1\<rparr>]
   \<and> snd (get_ajax blog
            (view_with [''model'' \<mapsto> PyModel entry_model, ''object_id'' \<mapsto> PyStr ''1''])
          [\<lparr>votable_type = ''blog.entry'', votable_id = 1, voter_id = 7, direction = 1\<rparr>])
     = [\<lparr>votable_type = ''blog.entry'', votable_id = 1, voter_id = 7, direction = 1\<rparr>]"
  using reads_leave_votes
          [OF store_get_score_reads,
           of "view_with [''model'' \<mapsto> PyModel entry_model, ''object_id'' \<mapsto> PyStr ''1'']"
              "[\<lparr>votable_type = ''blog.entry'', votable_id = 1, voter_id = 7, direction = 1\<rparr>]"]
  by simp


end
